theory Spec2Isabelle
  imports Main
begin

section \<open>The shell class of snakemake/shell.py\<close>

text \<open>
  The module holds one class, \<open>shell\<close>, whose class attributes are process-wide state
  (\<open>_process_args\<close>, \<open>_process_prefix\<close>, \<open>_process_suffix\<close>, \<open>_processes\<close>) and whose
  \<open>__new__\<close> runs a command. The model passes that state explicitly, together with a
  trace of the effects on the outside world (log messages, spawned processes, reads,
  waits and signals), so that "no process was spawned" or "the wait came first" are
  statements about the trace. The lock \<open>_lock\<close> is not modelled: every operation here
  runs to its end before the next one starts.
\<close>

subsection \<open>Python values, strings and errors\<close>

text \<open>
  The values a binding can hold. \<open>PObj t\<close> is an object of a class this module does not
  define (an environment-module set, a benchmark record), carried with the text
  \<open>str()\<close> gives for it. Strings are lists of characters with code points below
  256, and \<open>is_space\<close> is \<open>str.isspace\<close> on those: the characters 9 to 13, 28 to 32,
  0x85 and 0xA0.
\<close>

datatype pyval = PNone | PBool bool | PInt int | PStr string | PObj string

fun truthy :: "pyval \<Rightarrow> bool" where
  "truthy PNone = False"
| "truthy (PBool b) = b"
| "truthy (PInt i) = (i \<noteq> 0)"
| "truthy (PStr s) = (s \<noteq> [])"
| "truthy (PObj t) = True"

datatype error =
    KeyError string
  | NameError string
  | IndexError string
  | ValueError string
  | OSError string
  | AttributeError string
  | CalledProcessError int string

type_synonym bindings = "string \<rightharpoonup> pyval"

definition dict_get :: "bindings \<Rightarrow> string \<Rightarrow> pyval \<Rightarrow> pyval" where
  \<comment> \<open>\<open>d.get(key, default)\<close>\<close>
  "dict_get d k dflt = (case d k of None \<Rightarrow> dflt | Some v \<Rightarrow> v)"

definition is_space :: "char \<Rightarrow> bool" where
  "is_space c = (let n = (of_char c :: nat)
                 in (9 \<le> n \<and> n \<le> 13) \<or> (28 \<le> n \<and> n \<le> 32) \<or> n = 133 \<or> n = 160)"

definition strip :: "string \<Rightarrow> string" where
  \<comment> \<open>\<open>str.strip()\<close>\<close>
  "strip s = rev (dropWhile is_space (rev (dropWhile is_space s)))"

fun digit_char :: "nat \<Rightarrow> char" where
  "digit_char n = char_of (48 + n)"

fun str_nat :: "nat \<Rightarrow> string" where
  "str_nat n = (if n < 10 then [digit_char n] else str_nat (n div 10) @ [digit_char (n mod 10)])"

declare str_nat.simps [simp del]

fun str :: "pyval \<Rightarrow> string" where
  \<comment> \<open>\<open>str(v)\<close>\<close>
  "str PNone = ''None''"
| "str (PBool b) = (if b then ''True'' else ''False'')"
| "str (PInt i) = (if i < 0 then CHR ''-'' # str_nat (nat (- i)) else str_nat (nat i))"
| "str (PStr s) = s"
| "str (PObj t) = t"

subsection \<open>The host: operating system, search path and processes\<close>

text \<open>
  What the module asks of \<open>os\<close>, \<open>sys\<close>, \<open>shutil\<close>, \<open>subprocess\<close> and of the three
  activation helpers it imports is a parameter of the model. \<open>popen\<close> answers a spawn
  request either with the message of an operating-system error or with what the child
  will do: the text it writes to its standard output and its exit code. A child is
  taken to write a finite text and to exit.
\<close>

datatype stdout_target = PIPE | SYS_STDOUT | NO_STDOUT

record popen_args =
  pa_cmd :: string
  pa_stdout :: stdout_target
  pa_universal_newlines :: bool
  pa_close_fds :: bool
  pa_process_args :: "string \<rightharpoonup> string"

record host =
  os_name :: string
  sys_platform :: string
  stdout_is_text :: bool
  path_isabs :: "string \<Rightarrow> bool"
  path_split_tail :: "string \<Rightarrow> string"
  which :: "string \<Rightarrow> string option"
  env_modules_shellcmd :: "pyval \<Rightarrow> string \<Rightarrow> string"
  conda_shellcmd :: "pyval \<Rightarrow> pyval \<Rightarrow> string \<Rightarrow> string"
  singularity_shellcmd :: "pyval \<Rightarrow> string \<Rightarrow> pyval \<Rightarrow> string \<Rightarrow> pyval \<Rightarrow> string"
  popen :: "popen_args \<Rightarrow> string + string \<times> int"

text \<open>The two path functions as \<open>posixpath\<close> has them.\<close>

definition posix_isabs :: "string \<Rightarrow> bool" where
  "posix_isabs p = (take 1 p = ''/'')"

definition posix_split_tail :: "string \<Rightarrow> string" where
  \<comment> \<open>\<open>posixpath.split(p)[-1]\<close>: what follows the last slash\<close>
  "posix_split_tail p = rev (takeWhile (\<lambda>c. c \<noteq> CHR ''/'') (rev p))"

subsection \<open>The class state\<close>

record proc =
  pid :: nat
  out :: string
  returncode :: int

datatype event =
    LogShellcmd string
  | LogInfo string
  | Spawned proc popen_args
  | StdoutRead nat
  | Waited nat
  | Benchmarked nat pyval
  | Killed nat

record shell_state =
  process_args :: "string \<rightharpoonup> string"
  process_prefix :: string
  process_suffix :: string
  processes :: "pyval \<rightharpoonup> proc"
  events :: "event list"
  next_pid :: nat

definition initial_state :: shell_state where
  \<comment> \<open>the class attributes as the class body sets them, before the module's last lines run\<close>
  "initial_state = \<lparr> process_args = Map.empty, process_prefix = [], process_suffix = [],
     processes = Map.empty, events = [], next_pid = 1 \<rparr>"

definition get_executable :: "shell_state \<Rightarrow> string option" where
  "get_executable s = process_args s ''executable''"

definition executable :: "host \<Rightarrow> string \<Rightarrow> shell_state \<Rightarrow> error + shell_state" where
  \<comment> \<open>\<open>shell.executable(cmd)\<close>. The module never imports \<open>WorkflowError\<close>, so line 53
      raises \<open>NameError\<close> when it looks the name up.\<close>
  "executable h cmd s =
     (let resolved =
        (if os_name h = ''posix'' \<and> \<not> path_isabs h cmd
         then (case which h cmd of
                 None \<Rightarrow> Inl (NameError ''WorkflowError'')
               | Some c \<Rightarrow> if c = [] then Inl (NameError ''WorkflowError'') else Inr c)
         else Inr cmd)
      in case resolved of
           Inl e \<Rightarrow> Inl e
         | Inr c \<Rightarrow>
             (let s1 = (if path_split_tail h c = ''bash''
                        then s\<lparr>process_prefix := process_prefix s @ ''set -euo pipefail; ''\<rparr>
                        else s)
              in Inr (s1\<lparr>process_args := (process_args s1)(''executable'' \<mapsto> c)\<rparr>)))"

definition prefix :: "string \<Rightarrow> shell_state \<Rightarrow> shell_state" where
  "prefix p s = s\<lparr>process_prefix := p\<rparr>"

definition suffix :: "string \<Rightarrow> shell_state \<Rightarrow> shell_state" where
  "suffix p s = s\<lparr>process_suffix := p\<rparr>"

definition kill :: "pyval \<Rightarrow> shell_state \<Rightarrow> shell_state" where
  \<comment> \<open>\<open>shell.kill(jobid)\<close>: signal the handle, then drop the entry\<close>
  "kill jobid s =
     (case processes s jobid of
        None \<Rightarrow> s
      | Some p \<Rightarrow> s\<lparr>processes := (processes s)(jobid := None),
                     events := events s @ [Killed (pid p)]\<rparr>)"

definition cleanup :: "shell_state \<Rightarrow> shell_state" where
  "cleanup s = s\<lparr>processes := Map.empty\<rparr>"

subsection \<open>The formatter\<close>

text \<open>
  Modelled from the spec: \<open>snakemake.utils.format\<close> is imported by the module and its
  source is not part of it. Section 4.1 of the design describes it: given a template,
  positional arguments and a binding context (the caller's locals merged with the
  explicit keyword arguments, the keyword arguments winning a collision), it
  substitutes named and positional placeholders. A placeholder is written
  \<open>{name}\<close>, \<open>{0}\<close> or \<open>{}\<close> (the next positional argument); a name that is not bound
  is a \<open>NameError\<close>, a position past the arguments an \<open>IndexError\<close>, a brace that does
  not open or close a placeholder a \<open>ValueError\<close>.
\<close>

definition is_digit :: "char \<Rightarrow> bool" where
  "is_digit c = (let n = (of_char c :: nat) in 48 \<le> n \<and> n \<le> 57)"

definition nat_of_digits :: "string \<Rightarrow> nat" where
  "nat_of_digits ds = foldl (\<lambda>n c. 10 * n + (of_char c - 48)) 0 ds"

definition positional :: "pyval list \<Rightarrow> nat \<Rightarrow> error + pyval" where
  "positional args i =
     (if i < length args then Inr (args ! i) else Inl (IndexError ''tuple index out of range''))"

definition lookup_field :: "pyval list \<Rightarrow> bindings \<Rightarrow> nat \<Rightarrow> string \<Rightarrow> error + pyval" where
  "lookup_field args vars auto f =
     (if f = [] then positional args auto
      else if list_all is_digit f then positional args (nat_of_digits f)
      else (case vars f of None \<Rightarrow> Inl (NameError f) | Some v \<Rightarrow> Inr v))"

fun format_scan :: "pyval list \<Rightarrow> bindings \<Rightarrow> nat \<Rightarrow> string option \<Rightarrow> string \<Rightarrow> error + string" where
  "format_scan args vars auto None [] = Inr []"
| "format_scan args vars auto (Some f) [] = Inl (ValueError ''expected } before end of string'')"
| "format_scan args vars auto None (c # cs) =
     (if c = CHR ''{'' then format_scan args vars auto (Some []) cs
      else if c = CHR ''}'' then Inl (ValueError ''Single } encountered in format string'')
      else (case format_scan args vars auto None cs of
              Inl e \<Rightarrow> Inl e
            | Inr r \<Rightarrow> Inr (c # r)))"
| "format_scan args vars auto (Some f) (c # cs) =
     (if c = CHR ''}''
      then (case lookup_field args vars auto f of
              Inl e \<Rightarrow> Inl e
            | Inr v \<Rightarrow>
                (case format_scan args vars (if f = [] then Suc auto else auto) None cs of
                   Inl e \<Rightarrow> Inl e
                 | Inr r \<Rightarrow> Inr (str v @ r)))
      else format_scan args vars auto (Some (f @ [c])) cs)"

definition format :: "string \<Rightarrow> pyval list \<Rightarrow> bindings \<Rightarrow> bindings \<Rightarrow> error + string" where
  \<comment> \<open>Modelled from the spec: \<open>format(pattern, *args, stepout=2, **kwargs)\<close>, with the
      caller's locals it reaches through the frame passed as an argument\<close>
  "format pattern args caller_locals kwargs =
     format_scan args (caller_locals ++ kwargs) 0 None pattern"

subsection \<open>Running a command\<close>

text \<open>
  A generator object of \<open>iter_stdout\<close>: the handle and command it closes over, the lines
  of the child's output it has not yielded yet, and whether its body has run to the
  end. The output is the text as the pipe delivers it in text mode, every line
  terminator already a single line feed; a line keeps its terminator, and the last
  line has none when the output does not end with one.
\<close>

record generator =
  g_proc :: proc
  g_cmd :: string
  g_lines :: "string list"
  g_finished :: bool

datatype result = RNone | RBuffer string | RLines generator

datatype step = Yield string | StopIteration | Raise error

fun readlines :: "string \<Rightarrow> string \<Rightarrow> string list" where
  "readlines cur [] = (if cur = [] then [] else [cur])"
| "readlines cur (c # cs) =
     (if c = CHR 0x0A then (cur @ [c]) # readlines [] cs else readlines (cur @ [c]) cs)"

definition log :: "event \<Rightarrow> shell_state \<Rightarrow> shell_state" where
  "log ev s = s\<lparr>events := events s @ [ev]\<rparr>"

definition fmt :: "pyval list \<Rightarrow> bindings \<Rightarrow> bindings \<Rightarrow> string \<Rightarrow> error + string" where
  \<comment> \<open>line 87: \<open>lambda to_fmt: format(to_fmt, *args, stepout=2, **kwargs).strip()\<close>\<close>
  "fmt args caller_locals kwargs to_fmt =
     (case format to_fmt args caller_locals kwargs of
        Inl e \<Rightarrow> Inl e
      | Inr r \<Rightarrow> Inr (strip r))"

definition iter_stdout :: "proc \<Rightarrow> string \<Rightarrow> generator" where
  \<comment> \<open>calling a generator function runs none of its body\<close>
  "iter_stdout p cmd = \<lparr> g_proc = p, g_cmd = cmd, g_lines = readlines [] (out p), g_finished = False \<rparr>"

definition gen_next :: "generator \<Rightarrow> shell_state \<Rightarrow> step \<times> generator \<times> shell_state" where
  \<comment> \<open>one \<open>next()\<close> on the generator: lines 168 to 172\<close>
  "gen_next g s =
     (if g_finished g then (StopIteration, g, s)
      else (case g_lines g of
              l # ls \<Rightarrow> (Yield (butlast l), g\<lparr>g_lines := ls\<rparr>, s)
            | [] \<Rightarrow>
                (let s1 = log (Waited (pid (g_proc g))) s;
                     g1 = g\<lparr>g_finished := True\<rparr>
                 in if returncode (g_proc g) \<noteq> 0
                    then (Raise (CalledProcessError (returncode (g_proc g)) (g_cmd g)), g1, s1)
                    else (StopIteration, g1, s1))))"

function consume :: "generator \<Rightarrow> shell_state \<Rightarrow> string list \<times> error option \<times> generator \<times> shell_state" where
  "consume g s =
     (case gen_next g s of
        (Yield x, g1, s1) \<Rightarrow> (case consume g1 s1 of (xs, r) \<Rightarrow> (x # xs, r))
      | (StopIteration, g1, s1) \<Rightarrow> ([], None, g1, s1)
      | (Raise e, g1, s1) \<Rightarrow> ([], Some e, g1, s1))"
  by pat_completeness auto
termination
  by (relation "measure (\<lambda>(g, s). length (g_lines g))")
     (auto simp: gen_next_def Let_def split: if_splits list.splits)

declare consume.simps [simp del]

text \<open>
  \<open>shell(cmd, *args, iterable, read, bench_record, **kwargs)\<close> is \<open>shell.__new__\<close>. Its
  body is embedded in two parts: \<open>build_command\<close> is lines 85 to 129 (the reserved
  keyword, the formatted command and the activation stages) and \<open>shell_new\<close> is the whole
  call, which spawns the child and handles its output. \<open>caller_locals\<close> is the
  \<open>f_locals\<close> of the calling frame. The activation helpers are taken to return a
  command and to do nothing else. Line 112 calls the method \<open>shellcmd\<close> of the value
  bound to \<open>env_modules\<close>: an object has it, and a string, an integer or a boolean
  does not, so that the call raises \<open>AttributeError\<close>.
\<close>

fun has_shellcmd :: "pyval \<Rightarrow> bool" where
  "has_shellcmd (PObj t) = True"
| "has_shellcmd v = False"

definition build_command ::
  "host \<Rightarrow> string \<Rightarrow> pyval list \<Rightarrow> bindings \<Rightarrow> bindings \<Rightarrow> shell_state
     \<Rightarrow> (error + string) \<times> shell_state" where
  "build_command h cmd args kwargs caller_locals s =
     (if kwargs ''stepout'' \<noteq> None
      then (Inl (KeyError ''Argument stepout is not allowed in shell command.''), s)
      else
        (let context = caller_locals ++ kwargs;
             shown = (if \<not> truthy (dict_get context ''is_shell'' PNone)
                      then (case fmt args caller_locals kwargs cmd of
                              Inl e \<Rightarrow> Inl e
                            | Inr c \<Rightarrow> Inr (log (LogShellcmd c) s))
                      else Inr s)
         in case shown of
              Inl e \<Rightarrow> (Inl e, s)
            | Inr s0 \<Rightarrow>
                (let conda_env = dict_get context ''conda_env'' PNone;
                     container_img = dict_get context ''container_img'' PNone;
                     env_modules = dict_get context ''env_modules'' PNone;
                     shadow_dir = dict_get context ''shadow_dir'' PNone
                 in case fmt args caller_locals kwargs (process_prefix s0) of
                      Inl e \<Rightarrow> (Inl e, s0)
                    | Inr p \<Rightarrow>
                 (case fmt args caller_locals kwargs cmd of
                      Inl e \<Rightarrow> (Inl e, s0)
                    | Inr c \<Rightarrow>
                 (case fmt args caller_locals kwargs (process_suffix s0) of
                      Inl e \<Rightarrow> (Inl e, s0)
                    | Inr x \<Rightarrow>
                 (if truthy env_modules \<and> \<not> has_shellcmd env_modules
                  then (Inl (AttributeError ''shellcmd''), s0)
                  else
                 (let cmd0 = p @ '' '' @ c @ '' '' @ x;
                      cmd1 = (if truthy env_modules
                              then env_modules_shellcmd h env_modules cmd0 else cmd0);
                      s1 = (if truthy env_modules
                            then log (LogInfo (''Activating environment modules: '' @ str env_modules)) s0
                            else s0);
                      cmd2 = (if truthy conda_env
                              then conda_shellcmd h container_img conda_env cmd1 else cmd1);
                      conda_note = (\<lambda>t. if truthy conda_env
                            then log (LogInfo (''Activating conda environment: '' @ str conda_env)) t
                            else t)
                  in if truthy container_img
                     then (case process_args s1 ''executable'' of
                             None \<Rightarrow> (Inl (KeyError ''executable''), s1)
                           | Some exe \<Rightarrow>
                               (Inr (singularity_shellcmd h container_img cmd2
                                       (dict_get context ''singularity_args'' (PStr [])) exe shadow_dir),
                                conda_note
                                  (log (LogInfo (''Activating singularity image '' @ str container_img)) s1)))
                     else (Inr cmd2, conda_note s1))))))))"

definition shell_new ::
  "host \<Rightarrow> string \<Rightarrow> pyval list \<Rightarrow> bool \<Rightarrow> bool \<Rightarrow> pyval \<Rightarrow> bindings \<Rightarrow> bindings \<Rightarrow> shell_state
     \<Rightarrow> (error + result) \<times> shell_state" where
  "shell_new h cmd args iterable read bench_record kwargs caller_locals s =
     (case build_command h cmd args kwargs caller_locals s of
        (Inl e, s1) \<Rightarrow> (Inl e, s1)
      | (Inr cmd', s1) \<Rightarrow>
          (let jobid = dict_get (caller_locals ++ kwargs) ''jobid'' PNone;
               a = \<lparr> pa_cmd = cmd',
                     pa_stdout = (if iterable \<or> read then PIPE
                                  else if stdout_is_text h then SYS_STDOUT else NO_STDOUT),
                     pa_universal_newlines = iterable,
                     pa_close_fds = (sys_platform h \<noteq> ''win32''),
                     pa_process_args = process_args s1 \<rparr>
           in case popen h a of
                Inl msg \<Rightarrow> (Inl (OSError msg), s1)
              | Inr (text, rc) \<Rightarrow>
                  (let p = \<lparr> pid = next_pid s1, out = text, returncode = rc \<rparr>;
                       s2 = (log (Spawned p a) s1)\<lparr>next_pid := Suc (next_pid s1)\<rparr>;
                       s3 = (if jobid \<noteq> PNone
                             then s2\<lparr>processes := (processes s2)(jobid \<mapsto> p)\<rparr> else s2)
                   in if iterable then (Inr (RLines (iter_stdout p cmd')), s3)
                      else
                        (let s4 = (if read then log (StdoutRead (pid p)) s3 else s3);
                             s5 = (if bench_record \<noteq> PNone
                                   then log (Benchmarked (pid p) bench_record) s4
                                   else log (Waited (pid p)) s4);
                             s6 = (if jobid \<noteq> PNone
                                   then s5\<lparr>processes := (processes s5)(jobid := None)\<rparr> else s5)
                         in if rc \<noteq> 0 then (Inl (CalledProcessError rc cmd'), s6)
                            else (Inr (if read then RBuffer text else RNone), s6)))))"

definition shell_lines ::
  "host \<Rightarrow> string \<Rightarrow> pyval list \<Rightarrow> bool \<Rightarrow> pyval \<Rightarrow> bindings \<Rightarrow> bindings \<Rightarrow> shell_state
     \<Rightarrow> string list \<times> error option \<times> shell_state" where
  \<comment> \<open>a caller's \<open>for line in shell(cmd, iterable=True, ...)\<close>, run to the end: the items
      it received, the error that ended it if one did, and the state afterwards\<close>
  "shell_lines h cmd args read bench_record kwargs caller_locals s =
     (case shell_new h cmd args True read bench_record kwargs caller_locals s of
        (Inl e, s1) \<Rightarrow> ([], Some e, s1)
      | (Inr (RLines g), s1) \<Rightarrow> (case consume g s1 of (xs, e, g1, s2) \<Rightarrow> (xs, e, s2))
      | (Inr _, s1) \<Rightarrow> ([], None, s1))"

subsection \<open>The activation chain as the design describes it\<close>

text \<open>
  Section 4.2 of the design: each stage rewrites the command when its selector is
  present and non-empty, which is when Python takes the selector for true, in the
  order modules, package environment, container; the container stage also receives
  the extra container arguments, the shell executable and the working-directory
  override. This definition follows those words; \<open>build_command\<close> above follows the code.
\<close>

definition stage :: "bool \<Rightarrow> (string \<Rightarrow> string) \<Rightarrow> string \<Rightarrow> string" where
  "stage selected wrap c = (if selected then wrap c else c)"

definition activation_chain :: "host \<Rightarrow> bindings \<Rightarrow> string \<Rightarrow> string \<Rightarrow> string" where
  "activation_chain h context exe base =
     (let env_modules = dict_get context ''env_modules'' PNone;
          conda_env = dict_get context ''conda_env'' PNone;
          container_img = dict_get context ''container_img'' PNone
      in stage (truthy container_img)
           (\<lambda>c. singularity_shellcmd h container_img c
                  (dict_get context ''singularity_args'' (PStr [])) exe
                  (dict_get context ''shadow_dir'' PNone))
           (stage (truthy conda_env) (conda_shellcmd h container_img conda_env)
              (stage (truthy env_modules) (env_modules_shellcmd h env_modules) base)))"

definition brace_free :: "string \<Rightarrow> bool" where
  \<comment> \<open>a template without placeholders\<close>
  "brace_free t = (CHR ''{'' \<notin> set t \<and> CHR ''}'' \<notin> set t)"

fun blocking :: "event \<Rightarrow> bool" where
  \<comment> \<open>the events of reading the whole output and of waiting for the child\<close>
  "blocking (StdoutRead n) = True"
| "blocking (Waited n) = True"
| "blocking (Benchmarked n b) = True"
| "blocking ev = False"

subsection \<open>A host and states for the examples\<close>

text \<open>
  A POSIX host whose search path and children are given, with path functions as
  \<open>posixpath\<close> has them and activation helpers that wrap the command in a recognisable
  way, so that the order of the stages shows in the result.
\<close>

definition posix_host :: "(string \<Rightarrow> string option) \<Rightarrow> (popen_args \<Rightarrow> string + string \<times> int) \<Rightarrow> host" where
  "posix_host w po =
     \<lparr> os_name = ''posix'', sys_platform = ''linux'', stdout_is_text = True,
       path_isabs = posix_isabs, path_split_tail = posix_split_tail, which = w,
       env_modules_shellcmd = (\<lambda>m c. ''module load '' @ str m @ ''; '' @ c),
       conda_shellcmd = (\<lambda>img env c. ''source activate '' @ str env @ ''; '' @ c),
       singularity_shellcmd =
         (\<lambda>img c args exe workdir. ''singularity exec '' @ str img @ '' '' @ exe @ '' -c ('' @ c @ '')''),
       popen = po \<rparr>"

definition bash_only :: "string \<Rightarrow> string option" where
  \<comment> \<open>a search path on which \<open>bash\<close> is the one executable\<close>
  "bash_only name = (if name = ''bash'' then Some ''/bin/bash'' else None)"

definition child :: "string \<Rightarrow> int \<Rightarrow> popen_args \<Rightarrow> string + string \<times> int" where
  \<comment> \<open>every spawn succeeds; the child writes the given text and exits with the given code\<close>
  "child text rc a = Inr (text, rc)"

definition bash_state :: shell_state where
  \<comment> \<open>the class state once the module's last line, \<open>shell.executable("bash")\<close>, has run\<close>
  "bash_state = initial_state\<lparr> process_args := [''executable'' \<mapsto> ''/bin/bash''],
                                process_prefix := ''set -euo pipefail; '' \<rparr>"

definition occurrences :: "string \<Rightarrow> string \<Rightarrow> nat" where
  \<comment> \<open>the number of positions of \<open>s\<close> at which \<open>pat\<close> starts\<close>
  "occurrences pat s = length (filter (\<lambda>i. take (length pat) (drop i s) = pat) [0..<Suc (length s)])"

section \<open>Properties\<close>

subsection \<open>Cancellation\<close>

text \<open>
  C4. For every job id, \<open>kill\<close> signals the registered handle and removes the entry when
  there is one, and leaves everything as it was when there is none. \<open>kill\<close> has no
  error result: it returns a state in both cases, and afterwards the registry has no
  entry for the job id.
\<close>

theorem kill_signals_and_removes_or_is_noop:
  "(\<forall>p. processes s jobid = Some p \<longrightarrow>
        kill jobid s = s\<lparr>processes := (processes s)(jobid := None),
                          events := events s @ [Killed (pid p)]\<rparr>)
   \<and> (processes s jobid = None \<longrightarrow> kill jobid s = s)
   \<and> processes (kill jobid s) jobid = None"
  by (auto simp: kill_def split: option.splits)

theorem kill_signals_and_removes_or_is_noop_witness:
  "kill (PInt 7) (initial_state\<lparr>processes := [PInt 7 \<mapsto> \<lparr>pid = 42, out = [], returncode = 0\<rparr>]\<rparr>)
     = initial_state\<lparr>processes := Map.empty, events := [Killed 42]\<rparr>
   \<and> kill (PInt 8) (initial_state\<lparr>processes := [PInt 7 \<mapsto> \<lparr>pid = 42, out = [], returncode = 0\<rparr>]\<rparr>)
     = initial_state\<lparr>processes := [PInt 7 \<mapsto> \<lparr>pid = 42, out = [], returncode = 0\<rparr>]\<rparr>"
  using kill_signals_and_removes_or_is_noop
          [of "initial_state\<lparr>processes := [PInt 7 \<mapsto> \<lparr>pid = 42, out = [], returncode = 0\<rparr>]\<rparr>" "PInt 7"]
        kill_signals_and_removes_or_is_noop
          [of "initial_state\<lparr>processes := [PInt 7 \<mapsto> \<lparr>pid = 42, out = [], returncode = 0\<rparr>]\<rparr>" "PInt 8"]
  by (simp add: initial_state_def)

subsection \<open>The reserved keyword\<close>

text \<open>
  C3. Whenever the keyword argument \<open>stepout\<close> is supplied, the call fails with the
  \<open>KeyError\<close> of line 86 and the state is the one it started from: nothing was logged,
  no process was spawned and the registry has no new entry.
\<close>

theorem stepout_rejected_before_any_effect:
  "kwargs ''stepout'' = Some v \<Longrightarrow>
     shell_new h cmd args iterable read bench_record kwargs caller_locals s
       = (Inl (KeyError ''Argument stepout is not allowed in shell command.''), s)"
  by (simp add: shell_new_def build_command_def)

theorem stepout_rejected_before_any_effect_witness:
  "shell_new (posix_host bash_only (child ''hello'' 0)) ''echo hello'' [] False True PNone
       [''stepout'' \<mapsto> PInt 1] [''jobid'' \<mapsto> PInt 3] bash_state
     = (Inl (KeyError ''Argument stepout is not allowed in shell command.''), bash_state)"
  using stepout_rejected_before_any_effect
          [of "[''stepout'' \<mapsto> PInt 1]" "PInt 1" "posix_host bash_only (child ''hello'' 0)"
              "''echo hello''" "[]" False True PNone "[''jobid'' \<mapsto> PInt 3]" bash_state]
  by simp

subsection \<open>Setting the executable\<close>

lemma executable_stores_resolved:
  assumes "os_name h = ''posix''" and "\<not> path_isabs h cmd" and "which h cmd = Some c" and "c \<noteq> []"
  shows "\<exists>s1. executable h cmd s = Inr s1 \<and> process_args s1 ''executable'' = Some c"
  using assms by (simp add: executable_def)

lemma executable_Inr_prefix:
  assumes "executable h cmd s = Inr s1" and "process_args s1 ''executable'' = Some c"
  shows "process_prefix s1 =
           (if path_split_tail h c = ''bash'' then process_prefix s @ ''set -euo pipefail; ''
            else process_prefix s)"
  using assms by (auto simp: executable_def Let_def split: if_splits option.splits)

text \<open>
  C2, as the code has it. When \<open>executable\<close> succeeds and the path it stores has the
  basename \<open>bash\<close>, the new prefix is the prior prefix followed by the fail-fast
  directive: line 59 appends. A second such call appends the directive once more, so
  that the prefix then ends with two copies of it.
\<close>

theorem executable_bash_appends_directive:
  assumes "executable h cmd s = Inr s1"
    and "process_args s1 ''executable'' = Some c"
    and "path_split_tail h c = ''bash''"
  shows "process_prefix s1 = process_prefix s @ ''set -euo pipefail; ''
         \<and> (\<forall>cmd2 s2 c2. executable h cmd2 s1 = Inr s2
               \<longrightarrow> process_args s2 ''executable'' = Some c2
               \<longrightarrow> path_split_tail h c2 = ''bash''
               \<longrightarrow> process_prefix s2
                     = process_prefix s @ ''set -euo pipefail; '' @ ''set -euo pipefail; '')"
proof -
  have first: "process_prefix s1 = process_prefix s @ ''set -euo pipefail; ''"
    using executable_Inr_prefix [OF assms(1) assms(2)] assms(3) by simp
  have "process_prefix s2 = process_prefix s @ ''set -euo pipefail; '' @ ''set -euo pipefail; ''"
    if "executable h cmd2 s1 = Inr s2" and "process_args s2 ''executable'' = Some c2"
      and "path_split_tail h c2 = ''bash''" for cmd2 s2 c2
    using executable_Inr_prefix [OF that(1) that(2)] that(3) first by simp
  with first show ?thesis by blast
qed

theorem executable_bash_appends_directive_witness:
  "executable (posix_host bash_only (child [] 0)) ''bash'' initial_state = Inr bash_state
   \<and> process_prefix bash_state = process_prefix initial_state @ ''set -euo pipefail; ''
   \<and> executable (posix_host bash_only (child [] 0)) ''/bin/bash'' bash_state
       = Inr (bash_state\<lparr>process_prefix := ''set -euo pipefail; set -euo pipefail; ''\<rparr>)
   \<and> process_prefix (bash_state\<lparr>process_prefix := ''set -euo pipefail; set -euo pipefail; ''\<rparr>)
       = process_prefix initial_state @ ''set -euo pipefail; '' @ ''set -euo pipefail; ''"
proof -
  let ?h = "posix_host bash_only (child [] 0)"
  let ?s2 = "bash_state\<lparr>process_prefix := ''set -euo pipefail; set -euo pipefail; ''\<rparr>"
  have c1: "executable ?h ''bash'' initial_state = Inr bash_state"
    by (simp add: executable_def posix_host_def bash_only_def posix_isabs_def
          posix_split_tail_def initial_state_def bash_state_def)
  have a1: "process_args bash_state ''executable'' = Some ''/bin/bash''"
    by (simp add: bash_state_def)
  have b1: "path_split_tail ?h ''/bin/bash'' = ''bash''"
    by (simp add: posix_host_def posix_split_tail_def)
  have c2: "executable ?h ''/bin/bash'' bash_state = Inr ?s2"
    by (simp add: executable_def posix_host_def posix_isabs_def posix_split_tail_def
          initial_state_def bash_state_def)
  have a2: "process_args ?s2 ''executable'' = Some ''/bin/bash''"
    by (simp add: bash_state_def)
  from executable_bash_appends_directive [OF c1 a1 b1] c2 a2 b1
  have "process_prefix bash_state = process_prefix initial_state @ ''set -euo pipefail; ''"
    and "process_prefix ?s2
           = process_prefix initial_state @ ''set -euo pipefail; '' @ ''set -euo pipefail; ''"
    by blast+
  with c1 c2 show ?thesis by simp
qed

text \<open>
  C2 as it is written fails twice over. Two calls with bash-named paths leave the
  directive in the prefix twice, and a prior prefix comes before the directive, not
  after it.
\<close>

theorem executable_bash_twice_counterexample:
  "executable (posix_host bash_only (child [] 0)) ''bash'' initial_state = Inr bash_state
   \<and> map_sum id process_prefix (executable (posix_host bash_only (child [] 0)) ''/bin/bash'' bash_state)
       = Inr ''set -euo pipefail; set -euo pipefail; ''
   \<and> occurrences ''set -euo pipefail; '' ''set -euo pipefail; set -euo pipefail; '' = 2
   \<and> map_sum id process_prefix
        (executable (posix_host bash_only (child [] 0)) ''bash'' (prefix ''umask 77; '' initial_state))
       = Inr ''umask 77; set -euo pipefail; ''"
proof -
  have "occurrences ''set -euo pipefail; '' ''set -euo pipefail; set -euo pipefail; '' = 2"
    by code_simp
  then show ?thesis
    by (simp add: executable_def posix_host_def bash_only_def posix_isabs_def
          posix_split_tail_def initial_state_def bash_state_def prefix_def)
qed

text \<open>
  C5 at an input where the code departs from it: on a POSIX host, a relative name
  that is not on the search path. Line 53 names \<open>WorkflowError\<close>, which the module
  does not import, so the error raised is a \<open>NameError\<close>; the state is not changed.
\<close>

theorem executable_not_found_raises_NameError:
  "executable (posix_host bash_only (child [] 0)) ''zsh'' bash_state
     = Inl (NameError ''WorkflowError'')"
  by (simp add: executable_def posix_host_def bash_only_def posix_isabs_def)

subsection \<open>Formatting and the base command\<close>

lemma format_scan_plain:
  "brace_free t \<Longrightarrow> format_scan args vars auto None t = Inr t"
  by (induction t) (auto simp: brace_free_def)

lemma format_scan_field:
  "CHR ''}'' \<notin> set k \<Longrightarrow>
   format_scan args vars auto (Some f) (k @ CHR ''}'' # rest) =
     (case lookup_field args vars auto (f @ k) of
        Inl e \<Rightarrow> Inl e
      | Inr v \<Rightarrow>
          (case format_scan args vars (if f @ k = [] then Suc auto else auto) None rest of
             Inl e \<Rightarrow> Inl e
           | Inr r \<Rightarrow> Inr (str v @ r)))"
  by (induction k arbitrary: f) auto

lemma fmt_plain: "brace_free t \<Longrightarrow> fmt args loc kw t = Inr (strip t)"
  by (simp add: fmt_def format_def format_scan_plain)

lemma fmt_named:
  assumes "(loc ++ kw) k = Some v" and "k \<noteq> []" and "\<not> list_all is_digit k"
    and "CHR ''}'' \<notin> set k"
  shows "fmt args loc kw (CHR ''{'' # k @ ''}'') = Inr (strip (str v))"
  using assms format_scan_field [of k args "loc ++ kw" 0 "[]" "[]"]
  by (simp add: fmt_def format_def lookup_field_def)

lemma build_command_Inr:
  assumes "build_command h cmd args kwargs loc s = (Inr c, s1)"
  shows "\<exists>p t x. format (process_prefix s) args loc kwargs = Inr p
           \<and> format cmd args loc kwargs = Inr t
           \<and> format (process_suffix s) args loc kwargs = Inr x
           \<and> (\<forall>exe. (truthy (dict_get (loc ++ kwargs) ''container_img'' PNone)
                        \<longrightarrow> process_args s ''executable'' = Some exe)
                 \<longrightarrow> c = activation_chain h (loc ++ kwargs) exe
                          (strip p @ '' '' @ strip t @ '' '' @ strip x))"
  using assms
  by (auto simp: build_command_def Let_def fmt_def log_def activation_chain_def stage_def
           split: if_splits sum.splits option.splits)

lemma build_command_state:
  assumes "build_command h cmd args kwargs loc s = (r, s1)"
  shows "process_args s1 = process_args s" and "processes s1 = processes s"
    and "next_pid s1 = next_pid s" and "process_prefix s1 = process_prefix s"
    and "process_suffix s1 = process_suffix s"
    and "filter blocking (events s1) = filter blocking (events s)"
    and "take (length (events s)) (events s1) = events s"
  using assms
  by (auto simp: build_command_def Let_def log_def
           split: if_splits sum.splits option.splits)

lemmas run_defs = shell_lines_def shell_new_def build_command_def fmt_def format_def
  strip_def is_space_def dict_get_def log_def iter_stdout_def posix_host_def child_def
  bash_state_def initial_state_def lookup_field_def positional_def is_digit_def
  nat_of_digits_def Let_def

text \<open>
  C7. Whenever lines 85 to 129 produce a command, the prefix, the template and the
  suffix each format on their own, through the same formatter with the same
  arguments, and the command is the activation chain applied to the base command:
  the three results, each stripped, joined by single spaces. With no stage selected
  the command is the base command itself. A template without placeholders formats
  to itself stripped. A named placeholder is replaced by the keyword argument of that
  name when there is one, whatever the caller's locals hold, and by the caller's local
  otherwise.
\<close>

theorem base_command_joins_formatted_parts:
  assumes "build_command h cmd args kwargs loc s = (Inr c, s1)"
  shows "(\<exists>p t x. format (process_prefix s) args loc kwargs = Inr p
            \<and> format cmd args loc kwargs = Inr t
            \<and> format (process_suffix s) args loc kwargs = Inr x
            \<and> (\<forall>exe. (truthy (dict_get (loc ++ kwargs) ''container_img'' PNone)
                         \<longrightarrow> process_args s ''executable'' = Some exe)
                  \<longrightarrow> c = activation_chain h (loc ++ kwargs) exe
                           (strip p @ '' '' @ strip t @ '' '' @ strip x))
            \<and> (\<not> truthy (dict_get (loc ++ kwargs) ''env_modules'' PNone)
                 \<and> \<not> truthy (dict_get (loc ++ kwargs) ''conda_env'' PNone)
                 \<and> \<not> truthy (dict_get (loc ++ kwargs) ''container_img'' PNone)
                 \<longrightarrow> c = strip p @ '' '' @ strip t @ '' '' @ strip x))
       \<and> (\<forall>tmpl. brace_free tmpl \<longrightarrow> fmt args loc kwargs tmpl = Inr (strip tmpl))
       \<and> (\<forall>k v. k \<noteq> [] \<and> \<not> list_all is_digit k \<and> CHR ''}'' \<notin> set k
                  \<and> (kwargs k = Some v \<or> (kwargs k = None \<and> loc k = Some v))
              \<longrightarrow> fmt args loc kwargs (CHR ''{'' # k @ ''}'') = Inr (strip (str v)))"
proof -
  from build_command_Inr [OF assms] obtain p t x where
    f: "format (process_prefix s) args loc kwargs = Inr p"
       "format cmd args loc kwargs = Inr t"
       "format (process_suffix s) args loc kwargs = Inr x"
    and ch: "\<And>exe. (truthy (dict_get (loc ++ kwargs) ''container_img'' PNone)
                        \<longrightarrow> process_args s ''executable'' = Some exe)
                \<Longrightarrow> c = activation_chain h (loc ++ kwargs) exe
                          (strip p @ '' '' @ strip t @ '' '' @ strip x)"
    by blast
  have plain: "c = strip p @ '' '' @ strip t @ '' '' @ strip x"
    if "\<not> truthy (dict_get (loc ++ kwargs) ''env_modules'' PNone)"
      and "\<not> truthy (dict_get (loc ++ kwargs) ''conda_env'' PNone)"
      and "\<not> truthy (dict_get (loc ++ kwargs) ''container_img'' PNone)"
    using ch [of "[]"] that by (simp add: activation_chain_def stage_def)
  have named: "fmt args loc kwargs (CHR ''{'' # k @ ''}'') = Inr (strip (str v))"
    if "k \<noteq> []" and "\<not> list_all is_digit k" and "CHR ''}'' \<notin> set k"
      and "kwargs k = Some v \<or> (kwargs k = None \<and> loc k = Some v)" for k v
  proof -
    from that(4) have "(loc ++ kwargs) k = Some v"
      by (auto simp: map_add_def)
    then show ?thesis using that(1-3) by (rule fmt_named)
  qed
  from f ch plain have first: "\<exists>p t x. format (process_prefix s) args loc kwargs = Inr p
            \<and> format cmd args loc kwargs = Inr t
            \<and> format (process_suffix s) args loc kwargs = Inr x
            \<and> (\<forall>exe. (truthy (dict_get (loc ++ kwargs) ''container_img'' PNone)
                         \<longrightarrow> process_args s ''executable'' = Some exe)
                  \<longrightarrow> c = activation_chain h (loc ++ kwargs) exe
                           (strip p @ '' '' @ strip t @ '' '' @ strip x))
            \<and> (\<not> truthy (dict_get (loc ++ kwargs) ''env_modules'' PNone)
                 \<and> \<not> truthy (dict_get (loc ++ kwargs) ''conda_env'' PNone)
                 \<and> \<not> truthy (dict_get (loc ++ kwargs) ''container_img'' PNone)
                 \<longrightarrow> c = strip p @ '' '' @ strip t @ '' '' @ strip x)"
    by blast
  from first fmt_plain named show ?thesis by blast
qed

theorem base_command_joins_formatted_parts_witness:
  "fst (build_command (posix_host bash_only (child [] 0)) ''  echo {input} > {0} '' [PStr ''out.txt'']
          [''input'' \<mapsto> PStr ''kw.txt''] [''input'' \<mapsto> PStr ''local.txt''] bash_state)
     = Inr ''set -euo pipefail; echo kw.txt > out.txt ''
   \<and> fmt [PStr ''out.txt''] [''input'' \<mapsto> PStr ''local.txt''] [''input'' \<mapsto> PStr ''kw.txt'']
         ''  echo hi  '' = Inr ''echo hi''
   \<and> fmt [PStr ''out.txt''] [''input'' \<mapsto> PStr ''local.txt''] [''input'' \<mapsto> PStr ''kw.txt'']
         ''{input}'' = Inr ''kw.txt''"
proof -
  let ?h = "posix_host bash_only (child [] 0)"
  let ?kw = "[''input'' \<mapsto> PStr ''kw.txt'']"
  let ?loc = "[''input'' \<mapsto> PStr ''local.txt'']"
  let ?b = "build_command ?h ''  echo {input} > {0} '' [PStr ''out.txt''] ?kw ?loc bash_state"
  have v: "fst ?b = Inr ''set -euo pipefail; echo kw.txt > out.txt ''"
    by (simp add: run_defs)
  then have b: "?b = (Inr ''set -euo pipefail; echo kw.txt > out.txt '', snd ?b)"
    by (simp add: prod_eq_iff)
  note inst = base_command_joins_formatted_parts [OF b]
  from inst have plain: "brace_free ''  echo hi  '' \<longrightarrow>
      fmt [PStr ''out.txt''] ?loc ?kw ''  echo hi  '' = Inr (strip ''  echo hi  '')"
    by blast
  from inst have named: "''input'' \<noteq> [] \<and> \<not> list_all is_digit ''input'' \<and> CHR ''}'' \<notin> set ''input''
        \<and> (?kw ''input'' = Some (PStr ''kw.txt'') \<or> (?kw ''input'' = None \<and> ?loc ''input'' = Some (PStr ''kw.txt'')))
      \<longrightarrow> fmt [PStr ''out.txt''] ?loc ?kw (CHR ''{'' # ''input'' @ ''}'') = Inr (strip (str (PStr ''kw.txt'')))"
    by blast
  from plain have p: "fmt [PStr ''out.txt''] ?loc ?kw ''  echo hi  '' = Inr ''echo hi''"
    by (simp add: brace_free_def strip_def is_space_def)
  from named have n: "fmt [PStr ''out.txt''] ?loc ?kw ''{input}'' = Inr ''kw.txt''"
    by (simp add: is_digit_def strip_def is_space_def)
  from v p n show ?thesis by blast
qed

subsection \<open>The activation chain\<close>

lemma container_without_executable_KeyError:
  assumes "kwargs ''stepout'' = None"
    and "fmt args loc kwargs (process_prefix s) = Inr p"
    and "fmt args loc kwargs cmd = Inr t"
    and "fmt args loc kwargs (process_suffix s) = Inr x"
    and "truthy (dict_get (loc ++ kwargs) ''env_modules'' PNone)
           \<longrightarrow> has_shellcmd (dict_get (loc ++ kwargs) ''env_modules'' PNone)"
    and "truthy (dict_get (loc ++ kwargs) ''container_img'' PNone)"
    and "process_args s ''executable'' = None"
  shows "fst (build_command h cmd args kwargs loc s) = Inl (KeyError ''executable'')"
  using assms
  by (simp add: build_command_def Let_def log_def)

lemma build_command_chain:
  assumes "kwargs ''stepout'' = None"
    and "fmt args loc kwargs (process_prefix s) = Inr p"
    and "fmt args loc kwargs cmd = Inr t"
    and "fmt args loc kwargs (process_suffix s) = Inr x"
    and "truthy (dict_get (loc ++ kwargs) ''env_modules'' PNone)
           \<longrightarrow> has_shellcmd (dict_get (loc ++ kwargs) ''env_modules'' PNone)"
    and "truthy (dict_get (loc ++ kwargs) ''container_img'' PNone)
           \<longrightarrow> process_args s ''executable'' = Some exe"
  shows "fst (build_command h cmd args kwargs loc s)
           = Inr (activation_chain h (loc ++ kwargs) exe (p @ '' '' @ t @ '' '' @ x))"
  using assms
  by (simp add: build_command_def Let_def log_def activation_chain_def stage_def)

lemma build_command_chain_conv:
  assumes "fst (build_command h cmd args kwargs loc s) = Inr c"
    and "truthy (dict_get (loc ++ kwargs) ''container_img'' PNone)
           \<longrightarrow> process_args s ''executable'' = Some exe"
  shows "\<exists>p t x. fmt args loc kwargs (process_prefix s) = Inr p
           \<and> fmt args loc kwargs cmd = Inr t
           \<and> fmt args loc kwargs (process_suffix s) = Inr x
           \<and> c = activation_chain h (loc ++ kwargs) exe (p @ '' '' @ t @ '' '' @ x)"
  using assms
  by (auto simp: build_command_def Let_def log_def activation_chain_def stage_def
           split: if_splits sum.splits option.splits)

text \<open>
  C6. Take an execution context in which a shell executable is configured whenever
  a container image is selected, and in which the environment modules, when
  selected, are an object with the method that line 112 calls. Then lines 85 to 129
  give a command whenever the reserved keyword is absent and the three parts format,
  and every command they give is the chain of the design applied to the base
  command: a stage wraps the command if and only if its selector is present and
  non-empty, modules first, then the package environment, then the container, which
  receives the command wrapped so far together with the container arguments, the
  configured executable and the working-directory override.
\<close>

theorem activation_stages_applied_in_order:
  assumes "truthy (dict_get (loc ++ kwargs) ''container_img'' PNone)
             \<longrightarrow> process_args s ''executable'' = Some exe"
    and "truthy (dict_get (loc ++ kwargs) ''env_modules'' PNone)
           \<longrightarrow> has_shellcmd (dict_get (loc ++ kwargs) ''env_modules'' PNone)"
  shows "(\<forall>p t x. kwargs ''stepout'' = None
              \<and> fmt args loc kwargs (process_prefix s) = Inr p
              \<and> fmt args loc kwargs cmd = Inr t
              \<and> fmt args loc kwargs (process_suffix s) = Inr x
            \<longrightarrow> fst (build_command h cmd args kwargs loc s)
                  = Inr (activation_chain h (loc ++ kwargs) exe (p @ '' '' @ t @ '' '' @ x)))
       \<and> (\<forall>c. fst (build_command h cmd args kwargs loc s) = Inr c
            \<longrightarrow> (\<exists>p t x. fmt args loc kwargs (process_prefix s) = Inr p
                    \<and> fmt args loc kwargs cmd = Inr t
                    \<and> fmt args loc kwargs (process_suffix s) = Inr x
                    \<and> c = activation_chain h (loc ++ kwargs) exe (p @ '' '' @ t @ '' '' @ x)))"
proof -
  have forward: "fst (build_command h cmd args kwargs loc s)
                  = Inr (activation_chain h (loc ++ kwargs) exe (p @ '' '' @ t @ '' '' @ x))"
    if "kwargs ''stepout'' = None" and "fmt args loc kwargs (process_prefix s) = Inr p"
      and "fmt args loc kwargs cmd = Inr t" and "fmt args loc kwargs (process_suffix s) = Inr x"
    for p t x
    by (rule build_command_chain [OF that assms(2) assms(1)])
  have backward: "\<exists>p t x. fmt args loc kwargs (process_prefix s) = Inr p
                    \<and> fmt args loc kwargs cmd = Inr t
                    \<and> fmt args loc kwargs (process_suffix s) = Inr x
                    \<and> c = activation_chain h (loc ++ kwargs) exe (p @ '' '' @ t @ '' '' @ x)"
    if "fst (build_command h cmd args kwargs loc s) = Inr c" for c
    by (rule build_command_chain_conv [OF that assms(1)])
  from forward backward show ?thesis by blast
qed

theorem activation_stages_applied_in_order_witness:
  "fst (build_command (posix_host bash_only (child [] 0)) ''echo hi'' [] Map.empty
          [''conda_env'' \<mapsto> PStr ''envs/a'', ''env_modules'' \<mapsto> PObj ''gcc'',
           ''container_img'' \<mapsto> PStr ''img.sif'', ''shadow_dir'' \<mapsto> PStr []] bash_state)
     = Inr ''singularity exec img.sif /bin/bash -c (source activate envs/a; module load gcc; set -euo pipefail; echo hi )''"
proof -
  let ?loc = "[''conda_env'' \<mapsto> PStr ''envs/a'', ''env_modules'' \<mapsto> PObj ''gcc'',
               ''container_img'' \<mapsto> PStr ''img.sif'', ''shadow_dir'' \<mapsto> PStr []]"
  have k: "(Map.empty :: bindings) ''stepout'' = None" by simp
  have p: "fmt [] ?loc Map.empty (process_prefix bash_state) = Inr ''set -euo pipefail;''"
    by (simp add: run_defs)
  have t: "fmt [] ?loc Map.empty ''echo hi'' = Inr ''echo hi''"
    by (simp add: run_defs)
  have x: "fmt [] ?loc Map.empty (process_suffix bash_state) = Inr []"
    by (simp add: run_defs)
  have e: "truthy (dict_get (?loc ++ Map.empty) ''container_img'' PNone)
             \<longrightarrow> process_args bash_state ''executable'' = Some ''/bin/bash''"
    by (simp add: bash_state_def)
  have m: "truthy (dict_get (?loc ++ Map.empty) ''env_modules'' PNone)
             \<longrightarrow> has_shellcmd (dict_get (?loc ++ Map.empty) ''env_modules'' PNone)"
    by (simp add: dict_get_def)
  from activation_stages_applied_in_order
         [OF e m, of "[]" "''echo hi''" "posix_host bash_only (child [] 0)"] k p t x
  have "fst (build_command (posix_host bash_only (child [] 0)) ''echo hi'' [] Map.empty ?loc bash_state)
          = Inr (activation_chain (posix_host bash_only (child [] 0)) (?loc ++ Map.empty) ''/bin/bash''
                   (''set -euo pipefail;'' @ '' '' @ ''echo hi'' @ '' '' @ []))"
    by blast
  then show ?thesis
    by (simp add: activation_chain_def stage_def dict_get_def posix_host_def)
qed

subsection \<open>Capture and fire-and-forget\<close>

lemma format_scan_not_CalledProcessError:
  "format_scan args vars auto m t \<noteq> Inl (CalledProcessError rc c)"
proof (induction t arbitrary: auto m)
  case Nil
  then show ?case by (cases m) simp_all
next
  case (Cons ch t)
  show ?case
  proof (cases m)
    case None
    with Cons [of auto None] Cons [of auto "Some []"] show ?thesis
      by (auto split: sum.splits)
  next
    case (Some f)
    have lf: "lookup_field args vars auto f \<noteq> Inl (CalledProcessError rc c)"
      by (auto simp: lookup_field_def positional_def split: option.splits)
    from Some lf Cons [of "if f = [] then Suc auto else auto" None] Cons [of auto "Some (f @ [ch])"]
    show ?thesis
      by (auto split: sum.splits)
  qed
qed

lemma build_command_not_CalledProcessError:
  "fst (build_command h cmd args kwargs loc s) \<noteq> Inl (CalledProcessError rc c)"
  using format_scan_not_CalledProcessError
  by (auto simp: build_command_def fmt_def format_def Let_def
           split: sum.splits option.splits)

lemma shell_new_blocking:
  assumes "build_command h cmd args kwargs loc s = (Inr c, s1)"
    and "a = \<lparr> pa_cmd = c,
                pa_stdout = (if read then PIPE else if stdout_is_text h then SYS_STDOUT else NO_STDOUT),
                pa_universal_newlines = False, pa_close_fds = (sys_platform h \<noteq> ''win32''),
                pa_process_args = process_args s1 \<rparr>"
    and "popen h a = Inr (text, rc)"
    and "p = \<lparr> pid = next_pid s1, out = text, returncode = rc \<rparr>"
    and "jobid = dict_get (loc ++ kwargs) ''jobid'' PNone"
  shows "shell_new h cmd args False read bench_record kwargs loc s =
           (if rc \<noteq> 0 then Inl (CalledProcessError rc c)
            else Inr (if read then RBuffer text else RNone),
            s1\<lparr>events := events s1 @ [Spawned p a] @ (if read then [StdoutRead (pid p)] else [])
                            @ [if bench_record \<noteq> PNone then Benchmarked (pid p) bench_record
                               else Waited (pid p)],
               next_pid := Suc (next_pid s1),
               processes := (if jobid \<noteq> PNone then (processes s1)(jobid := None) else processes s1)\<rparr>)"
  using assms
  by (simp add: shell_new_def Let_def log_def)

lemma CalledProcessError_only_from_child:
  assumes "fst (shell_new h cmd args False read bench_record kwargs loc s)
             = Inl (CalledProcessError rc c)"
  shows "\<exists>s1 text. build_command h cmd args kwargs loc s = (Inr c, s1)
           \<and> popen h \<lparr> pa_cmd = c,
                pa_stdout = (if read then PIPE else if stdout_is_text h then SYS_STDOUT else NO_STDOUT),
                pa_universal_newlines = False, pa_close_fds = (sys_platform h \<noteq> ''win32''),
                pa_process_args = process_args s1 \<rparr> = Inr (text, rc)
           \<and> rc \<noteq> 0"
proof (cases "build_command h cmd args kwargs loc s")
  case (Pair r s1)
  show ?thesis
  proof (cases r)
    case (Inl e)
    with Pair assms build_command_not_CalledProcessError [of h cmd args kwargs loc s rc c]
    show ?thesis by (simp add: shell_new_def)
  next
    case (Inr c')
    with Pair assms show ?thesis
      by (auto simp: shell_new_def Let_def split: sum.splits prod.splits if_splits)
  qed
qed

text \<open>
  C8. Take a call with \<open>iterable\<close> false whose command was built and whose child was
  spawned, writing \<open>text\<close> and exiting with \<open>rc\<close>. The call raises
  \<open>CalledProcessError\<close> exactly when \<open>rc\<close> is not zero, and the error carries \<open>rc\<close> and
  the command handed to \<open>Popen\<close>; otherwise it returns the text read in capture mode
  and \<open>None\<close> in fire-and-forget mode. In the state it leaves, the trace ends with the
  wait for the child, after the spawn and after the read if there was one, and the
  registry has no entry for the job id; without a job id the registry is as before.
\<close>

theorem blocking_run_raises_iff_nonzero_exit:
  assumes "build_command h cmd args kwargs loc s = (Inr c, s1)"
    and "a = \<lparr> pa_cmd = c,
                pa_stdout = (if read then PIPE else if stdout_is_text h then SYS_STDOUT else NO_STDOUT),
                pa_universal_newlines = False, pa_close_fds = (sys_platform h \<noteq> ''win32''),
                pa_process_args = process_args s \<rparr>"
    and "popen h a = Inr (text, rc)"
    and "shell_new h cmd args False read bench_record kwargs loc s = (r, s')"
  shows "r = (if rc = 0 then Inr (if read then RBuffer text else RNone)
              else Inl (CalledProcessError rc c))
       \<and> ((\<exists>rc' c'. r = Inl (CalledProcessError rc' c')) \<longleftrightarrow> rc \<noteq> 0)
       \<and> events s' = events s1
             @ [Spawned \<lparr> pid = next_pid s, out = text, returncode = rc \<rparr> a]
             @ (if read then [StdoutRead (next_pid s)] else [])
             @ [if bench_record \<noteq> PNone then Benchmarked (next_pid s) bench_record
                else Waited (next_pid s)]
       \<and> (dict_get (loc ++ kwargs) ''jobid'' PNone \<noteq> PNone
            \<longrightarrow> processes s' (dict_get (loc ++ kwargs) ''jobid'' PNone) = None)
       \<and> (dict_get (loc ++ kwargs) ''jobid'' PNone = PNone \<longrightarrow> processes s' = processes s)"
proof -
  note st = build_command_state [OF assms(1)]
  from assms(2) st(1) have a': "a = \<lparr> pa_cmd = c,
                pa_stdout = (if read then PIPE else if stdout_is_text h then SYS_STDOUT else NO_STDOUT),
                pa_universal_newlines = False, pa_close_fds = (sys_platform h \<noteq> ''win32''),
                pa_process_args = process_args s1 \<rparr>"
    by simp
  from shell_new_blocking [OF assms(1) a' assms(3) refl refl, of bench_record] assms(4)
  have r: "r = (if rc \<noteq> 0 then Inl (CalledProcessError rc c)
                else Inr (if read then RBuffer text else RNone))"
    and s': "s' = s1\<lparr>events := events s1
                     @ [Spawned \<lparr> pid = next_pid s1, out = text, returncode = rc \<rparr> a]
                     @ (if read then [StdoutRead (next_pid s1)] else [])
                     @ [if bench_record \<noteq> PNone then Benchmarked (next_pid s1) bench_record
                        else Waited (next_pid s1)],
                 next_pid := Suc (next_pid s1),
                 processes := (if dict_get (loc ++ kwargs) ''jobid'' PNone \<noteq> PNone
                               then (processes s1)(dict_get (loc ++ kwargs) ''jobid'' PNone := None)
                               else processes s1)\<rparr>"
    by simp_all
  from r have "r = (if rc = 0 then Inr (if read then RBuffer text else RNone)
              else Inl (CalledProcessError rc c))"
    by simp
  moreover from r have "(\<exists>rc' c'. r = Inl (CalledProcessError rc' c')) \<longleftrightarrow> rc \<noteq> 0"
    by auto
  moreover from s' st(3) have "events s' = events s1
             @ [Spawned \<lparr> pid = next_pid s, out = text, returncode = rc \<rparr> a]
             @ (if read then [StdoutRead (next_pid s)] else [])
             @ [if bench_record \<noteq> PNone then Benchmarked (next_pid s) bench_record
                else Waited (next_pid s)]"
    by simp
  moreover from s' have "dict_get (loc ++ kwargs) ''jobid'' PNone \<noteq> PNone
            \<longrightarrow> processes s' (dict_get (loc ++ kwargs) ''jobid'' PNone) = None"
    by simp
  moreover from s' st(2) have
    "dict_get (loc ++ kwargs) ''jobid'' PNone = PNone \<longrightarrow> processes s' = processes s"
    by simp
  ultimately show ?thesis by blast
qed

theorem blocking_run_raises_iff_nonzero_exit_witness:
  "fst (shell_new (posix_host bash_only (child ''a\<newline>b'' 3)) ''echo hi'' [] False True (PObj ''rec'')
          Map.empty [''jobid'' \<mapsto> PInt 5] bash_state)
     = Inl (CalledProcessError 3 ''set -euo pipefail; echo hi '')
   \<and> processes (snd (shell_new (posix_host bash_only (child ''a\<newline>b'' 3)) ''echo hi'' [] False True
          (PObj ''rec'') Map.empty [''jobid'' \<mapsto> PInt 5] bash_state)) (PInt 5) = None
   \<and> last (events (snd (shell_new (posix_host bash_only (child ''a\<newline>b'' 3)) ''echo hi'' [] False True
          (PObj ''rec'') Map.empty [''jobid'' \<mapsto> PInt 5] bash_state))) = Benchmarked 1 (PObj ''rec'')"
proof -
  let ?h = "posix_host bash_only (child ''a\<newline>b'' 3)"
  let ?loc = "[''jobid'' \<mapsto> PInt 5]"
  let ?b = "build_command ?h ''echo hi'' [] Map.empty ?loc bash_state"
  let ?run = "shell_new ?h ''echo hi'' [] False True (PObj ''rec'') Map.empty ?loc bash_state"
  let ?a = "\<lparr> pa_cmd = ''set -euo pipefail; echo hi '',
              pa_stdout = (if True then PIPE else if stdout_is_text ?h then SYS_STDOUT else NO_STDOUT),
              pa_universal_newlines = False, pa_close_fds = (sys_platform ?h \<noteq> ''win32''),
              pa_process_args = process_args bash_state \<rparr>"
  have "fst ?b = Inr ''set -euo pipefail; echo hi ''"
    by (simp add: run_defs)
  then have b: "?b = (Inr ''set -euo pipefail; echo hi '', snd ?b)"
    by (simp add: prod_eq_iff)
  have po: "popen ?h ?a = Inr (''a\<newline>b'', 3)"
    by (simp add: posix_host_def child_def)
  have run: "?run = (fst ?run, snd ?run)" by simp
  have j: "dict_get (?loc ++ Map.empty) ''jobid'' PNone = PInt 5"
    by (simp add: dict_get_def)
  have n: "next_pid bash_state = 1"
    by (simp add: bash_state_def initial_state_def)
  from blocking_run_raises_iff_nonzero_exit [OF b refl po run] j n
  show ?thesis by simp
qed

subsection \<open>Streaming\<close>

lemma consume_all:
  "\<not> g_finished g \<Longrightarrow>
   consume g s =
     (map butlast (g_lines g),
      (if returncode (g_proc g) \<noteq> 0
       then Some (CalledProcessError (returncode (g_proc g)) (g_cmd g)) else None),
      g\<lparr>g_lines := [], g_finished := True\<rparr>,
      log (Waited (pid (g_proc g))) s)"
proof (induction "g_lines g" arbitrary: g)
  case Nil
  then show ?case
    by (subst consume.simps) (simp add: gen_next_def Let_def)
next
  case (Cons l ls)
  from Cons.hyps(2) have gl: "g_lines g = l # ls" by simp
  have "consume (g\<lparr>g_lines := ls\<rparr>) s =
     (map butlast ls,
      (if returncode (g_proc g) \<noteq> 0
       then Some (CalledProcessError (returncode (g_proc g)) (g_cmd g)) else None),
      g\<lparr>g_lines := [], g_finished := True\<rparr>,
      log (Waited (pid (g_proc g))) s)"
    using Cons.hyps(1) [of "g\<lparr>g_lines := ls\<rparr>"] Cons.prems by simp
  then show ?case using gl Cons.prems
    by (subst consume.simps) (simp add: gen_next_def)
qed

lemma shell_lines_streaming:
  assumes "build_command h cmd args kwargs loc s = (Inr c, s1)"
    and "a = \<lparr> pa_cmd = c, pa_stdout = PIPE, pa_universal_newlines = True,
                pa_close_fds = (sys_platform h \<noteq> ''win32''), pa_process_args = process_args s1 \<rparr>"
    and "popen h a = Inr (text, rc)"
    and "p = \<lparr> pid = next_pid s1, out = text, returncode = rc \<rparr>"
    and "jobid = dict_get (loc ++ kwargs) ''jobid'' PNone"
  shows "shell_lines h cmd args read bench_record kwargs loc s =
           (map butlast (readlines [] text),
            (if rc \<noteq> 0 then Some (CalledProcessError rc c) else None),
            s1\<lparr>events := events s1 @ [Spawned p a, Waited (pid p)],
               next_pid := Suc (next_pid s1),
               processes := (if jobid \<noteq> PNone then (processes s1)(jobid \<mapsto> p) else processes s1)\<rparr>)"
  using assms
  by (simp add: shell_lines_def shell_new_def Let_def consume_all iter_stdout_def log_def)

text \<open>
  What the line reader gives: the lines put together are the output, and when the
  output is empty or ends with a line feed, every line ends with one, so that
  dropping its last character strips the terminator.
\<close>

lemma concat_readlines: "concat (readlines cur body) = cur @ body"
  by (induction body arbitrary: cur) auto

lemma readlines_terminated:
  "cur @ body = [] \<or> last (cur @ body) = CHR 0x0A \<Longrightarrow> l \<in> set (readlines cur body)
     \<Longrightarrow> l \<noteq> [] \<and> last l = CHR 0x0A"
  by (induction body arbitrary: cur) (auto split: if_splits)

text \<open>
  C10. With \<open>iterable\<close> true the call does the same whatever \<open>read\<close> and \<open>bench_record\<close>
  are: it equals the call with \<open>read\<close> false and no \<open>bench_record\<close>. It adds no read of
  the whole output and no wait to the trace, and when it returns a value, that value
  is a generator whose body has not started: all lines of the child's output are
  still to be yielded.
\<close>

theorem streaming_takes_precedence_over_read:
  "shell_new h cmd args True read bench_record kwargs loc s
     = shell_new h cmd args True False PNone kwargs loc s
   \<and> filter blocking (events (snd (shell_new h cmd args True read bench_record kwargs loc s)))
       = filter blocking (events s)
   \<and> ((\<exists>e. fst (shell_new h cmd args True read bench_record kwargs loc s) = Inl e)
       \<or> (\<exists>g. fst (shell_new h cmd args True read bench_record kwargs loc s) = Inr (RLines g)
              \<and> \<not> g_finished g \<and> g_lines g = readlines [] (out (g_proc g))))"
proof -
  have same: "shell_new h cmd args True read bench_record kwargs loc s
     = shell_new h cmd args True False PNone kwargs loc s"
    by (simp add: shell_new_def Let_def split: prod.splits sum.splits)
  obtain r s1 where b: "build_command h cmd args kwargs loc s = (r, s1)"
    by (cases "build_command h cmd args kwargs loc s")
  note st = build_command_state(6) [OF b]
  have quiet: "filter blocking (events (snd (shell_new h cmd args True read bench_record kwargs loc s)))
       = filter blocking (events s)"
    using b st by (auto simp: shell_new_def Let_def log_def split: sum.splits prod.splits)
  have fresh: "(\<exists>e. fst (shell_new h cmd args True read bench_record kwargs loc s) = Inl e)
       \<or> (\<exists>g. fst (shell_new h cmd args True read bench_record kwargs loc s) = Inr (RLines g)
              \<and> \<not> g_finished g \<and> g_lines g = readlines [] (out (g_proc g)))"
    by (auto simp: shell_new_def Let_def iter_stdout_def split: sum.splits prod.splits)
  from same quiet fresh show ?thesis by blast
qed

text \<open>
  C1 at an input where the code departs from it: a streaming call with job id 1 in
  the caller's locals, on a registry that has no entry for it. The caller consumes
  the generator to its end, one line and then the end of the iteration with exit
  code 0, and the registry still holds the handle under the job id: \<open>iter_stdout\<close>
  waits for the child and never deletes the entry that line 143 made.
\<close>

theorem streaming_run_leaves_registry_entry:
  "processes bash_state (PInt 1) = None
   \<and> fst (shell_lines (posix_host bash_only (child ''hi\<newline>'' 0)) ''echo hi'' [] False PNone
            Map.empty [''jobid'' \<mapsto> PInt 1] bash_state) = [''hi'']
   \<and> fst (snd (shell_lines (posix_host bash_only (child ''hi\<newline>'' 0)) ''echo hi'' [] False PNone
            Map.empty [''jobid'' \<mapsto> PInt 1] bash_state)) = None
   \<and> last (events (snd (snd (shell_lines (posix_host bash_only (child ''hi\<newline>'' 0)) ''echo hi'' []
            False PNone Map.empty [''jobid'' \<mapsto> PInt 1] bash_state)))) = Waited 1
   \<and> processes (snd (snd (shell_lines (posix_host bash_only (child ''hi\<newline>'' 0)) ''echo hi'' []
            False PNone Map.empty [''jobid'' \<mapsto> PInt 1] bash_state))) (PInt 1)
       = Some \<lparr> pid = 1, out = ''hi\<newline>'', returncode = 0 \<rparr>"
  by (simp add: run_defs consume.simps gen_next_def)

text \<open>
  C9 at an input where the code departs from it: a child that writes \<open>a\<close>, a line
  feed and \<open>b\<close>, with no line feed after the last line, and exits with code 0. Line 169
  drops the last character of every line, so the second item is empty where the
  line without its terminator is \<open>b\<close>.
\<close>

theorem streaming_unterminated_last_line_loses_character:
  "readlines [] ''a\<newline>b'' = [''a\<newline>'', ''b'']
   \<and> fst (shell_lines (posix_host bash_only (child ''a\<newline>b'' 0)) ''printf ab'' [] False PNone
            Map.empty Map.empty bash_state) = [''a'', []]
   \<and> fst (snd (shell_lines (posix_host bash_only (child ''a\<newline>b'' 0)) ''printf ab'' [] False PNone
            Map.empty Map.empty bash_state)) = None"
  by (simp add: run_defs consume.simps gen_next_def)

end
